theory Spec2Isabelle
  imports Complex_Main "HOL-Library.Sublist"
begin

section \<open>Python values, exceptions and the external libraries\<close>

text \<open>
  The two services of the repository (\<^verbatim>\<open>deepface_server.py\<close> and
  \<^verbatim>\<open>src/config/face_matching.py\<close>) are FastAPI handlers around third-party
  libraries. A handler either returns a response dictionary or raises; a raise is the
  \<open>Inl\<close> of a sum type. Python floats are modelled as \<^typ>\<open>real\<close>.

  The handlers only ever look at an exception through \<^verbatim>\<open>str(e)\<close>, so an exception of
  a library is represented by that string. \<^verbatim>\<open>HTTPException\<close> keeps its status code and
  detail; how the web framework renders it with \<^verbatim>\<open>str\<close> is a parameter of the model.
\<close>

datatype exn = HTTPException nat string | LibraryError string

fun str_exn :: "(nat \<Rightarrow> string \<Rightarrow> string) \<Rightarrow> exn \<Rightarrow> string" where
  "str_exn hs (HTTPException code detail) = hs code detail"
| "str_exn hs (LibraryError msg) = msg"

text \<open>The values \<^verbatim>\<open>json.loads\<close> can produce; a form string is a \<open>JStr\<close>.\<close>

datatype json =
    JNull
  | JBool bool
  | JInt int
  | JFloat real
  | JStr string
  | JArray "json list"
  | JObject "(string \<times> json) list"

text \<open>\<^verbatim>\<open>d.get(key, default)\<close> on a dictionary whose key may be absent.\<close>

definition dict_get :: "'a option \<Rightarrow> 'a \<Rightarrow> 'a" where
  "dict_get v dflt = (case v of None \<Rightarrow> dflt | Some x \<Rightarrow> x)"

text \<open>\<^verbatim>\<open>f"{xs}"\<close> for a list of plain strings: Python prints the \<^verbatim>\<open>repr\<close> of each.\<close>

definition py_repr_str :: "string \<Rightarrow> string" where
  "py_repr_str s = [CHR 0x27] @ s @ [CHR 0x27]"

fun py_join :: "string \<Rightarrow> string list \<Rightarrow> string" where
  "py_join sep [] = []"
| "py_join sep [x] = x"
| "py_join sep (x # y # ys) = x @ sep @ py_join sep (y # ys)"

definition py_repr_list :: "string list \<Rightarrow> string" where
  "py_repr_list xs = ''['' @ py_join '', '' (map py_repr_str xs) @ '']''"

definition AVAILABLE_MODELS :: "string list" where
  "AVAILABLE_MODELS = [''VGG-Face'', ''Facenet'', ''OpenFace'', ''DeepFace'', ''DeepID'', ''ArcFace'']"

definition AVAILABLE_DETECTORS :: "string list" where
  "AVAILABLE_DETECTORS = [''opencv'', ''ssd'', ''mtcnn'', ''dlib'', ''retinaface'']"

definition AVAILABLE_METRICS :: "string list" where
  "AVAILABLE_METRICS = [''cosine'', ''euclidean'', ''euclidean_l2'']"

text \<open>The message by which DeepFace signals that it found no face.\<close>

definition face_not_detected :: "string \<Rightarrow> bool" where
  "face_not_detected error_msg = sublist ''Face could not be detected'' error_msg"

subsection \<open>What DeepFace returns\<close>

type_synonym area = "(string \<times> int) list"

record facial_areas =
  fa_img1 :: "area option"
  fa_img2 :: "area option"

text \<open>The dictionary of \<^verbatim>\<open>DeepFace.verify\<close>; \<open>None\<close> is an absent key.\<close>

record verify_result =
  vr_verified :: "bool option"
  vr_distance :: "real option"
  vr_threshold :: "real option"
  vr_facial_areas :: "facial_areas option"

type_synonym distribution = "(string \<times> real) list"

record region_raw =
  rr_x :: "int option"
  rr_y :: "int option"
  rr_w :: "int option"
  rr_h :: "int option"

text \<open>One face of \<^verbatim>\<open>DeepFace.analyze\<close>; \<open>None\<close> is an absent key.\<close>

record face_raw =
  fr_region :: "region_raw option"
  fr_confidence :: "real option"
  fr_dominant_emotion :: "string option"
  fr_emotion :: "distribution option"
  fr_age :: "int option"
  fr_dominant_gender :: "string option"
  fr_gender :: "distribution option"
  fr_dominant_race :: "string option"
  fr_race :: "distribution option"

datatype analysis = AnalysisList "face_raw list" | AnalysisDict face_raw

text \<open>
  An element of \<^verbatim>\<open>detection.extract_faces\<close>: an array (given by its shape), a
  dictionary whose \<^verbatim>\<open>'face'\<close> entry may be absent, an array or something else, or any
  other object.
\<close>

datatype face_value = FaceArray "nat list" | FaceOther

datatype face_obj = ObjArray "nat list" | ObjDict "face_value option" | ObjOther

text \<open>
  The collaborators of \<^verbatim>\<open>deepface_server.py\<close>. A library call returns \<open>Inl\<close> of the
  exception's \<^verbatim>\<open>str\<close> when it raises. \<open>decode_upload\<close> and \<open>fetch_url\<close> stand for
  the library calls inside the \<^verbatim>\<open>try\<close> of \<^verbatim>\<open>load_image_from_file\<close> and
  \<^verbatim>\<open>load_image_from_url\<close> (read or GET, \<^verbatim>\<open>Image.open\<close>, the conversions).
\<close>

record ('img, 'file) deepface_env =
  DEEPFACE_AVAILABLE :: bool
  http_str :: "nat \<Rightarrow> string \<Rightarrow> string"
  decode_upload :: "'file \<Rightarrow> string + 'img"
  fetch_url :: "json \<Rightarrow> string + 'img"
  json_loads :: "string \<Rightarrow> string + json"
  DeepFace_analyze :: "'img \<Rightarrow> string \<Rightarrow> bool \<Rightarrow> string + analysis"
  DeepFace_verify ::
    "'img \<Rightarrow> 'img \<Rightarrow> string \<Rightarrow> string \<Rightarrow> string \<Rightarrow> bool \<Rightarrow> string + verify_result"
  extract_faces :: "'img \<Rightarrow> string \<Rightarrow> bool \<Rightarrow> string + face_obj list"

section \<open>deepface_server.py\<close>

definition load_image_from_url :: "('img, 'file) deepface_env \<Rightarrow> json \<Rightarrow> exn + 'img" where
  "load_image_from_url env url =
     (case fetch_url env url of
        Inl e \<Rightarrow> Inl (HTTPException 400 (''Failed to load image from URL: '' @ e))
      | Inr img_array \<Rightarrow> Inr img_array)"

definition load_image_from_file :: "('img, 'file) deepface_env \<Rightarrow> 'file \<Rightarrow> exn + 'img" where
  "load_image_from_file env file =
     (case decode_upload env file of
        Inl e \<Rightarrow> Inl (HTTPException 400 (''Failed to load image: '' @ e))
      | Inr img_array \<Rightarrow> Inr img_array)"

subsection \<open>/api/batch-verify\<close>

record batch_entry =
  be_url :: json
  be_verified :: bool
  be_distance :: real
  be_similarity :: real
  be_match :: bool
  be_error :: "string option"

record batch_summary =
  bs_total_images :: nat
  bs_matches :: nat
  bs_match_rate :: real
  bs_processing_time :: real
  bs_avg_time_per_image :: real

record batch_response =
  bv_success :: bool
  bv_results :: "batch_entry list"
  bv_summary :: batch_summary
  bv_model :: string
  bv_detector :: string
  bv_metrics :: string
  bv_threshold :: real

text \<open>The entry appended by the \<^verbatim>\<open>except\<close> branch of the loop.\<close>

definition batch_error_entry :: "json \<Rightarrow> string \<Rightarrow> batch_entry" where
  "batch_error_entry url e =
     \<lparr>be_url = url, be_verified = False, be_distance = 1, be_similarity = 0,
      be_match = False, be_error = Some e\<rparr>"

text \<open>The body of the loop: the \<^verbatim>\<open>try\<close> and its \<^verbatim>\<open>except\<close>, one entry either way.\<close>

definition batch_item ::
  "('img, 'file) deepface_env \<Rightarrow> 'img \<Rightarrow> string \<Rightarrow> string \<Rightarrow> string \<Rightarrow> real \<Rightarrow> json
     \<Rightarrow> batch_entry" where
  "batch_item env target_array model detector metrics threshold url =
     (case load_image_from_url env url of
        Inl e \<Rightarrow> batch_error_entry url (str_exn (http_str env) e)
      | Inr compare_array \<Rightarrow>
          (case DeepFace_verify env target_array compare_array model detector metrics False of
             Inl e \<Rightarrow> batch_error_entry url e
           | Inr result \<Rightarrow>
               (let similarity = 1 - dict_get (vr_distance result) 1;
                    verified = (similarity > threshold)
                in \<lparr>be_url = url, be_verified = verified,
                    be_distance = dict_get (vr_distance result) 1,
                    be_similarity = similarity,
                    be_match = dict_get (vr_verified result) False,
                    be_error = None\<rparr>)))"

text \<open>\<^verbatim>\<open>for i, url in enumerate(urls)\<close>, appending to \<open>results\<close>.\<close>

fun batch_loop :: "(json \<Rightarrow> batch_entry) \<Rightarrow> json list \<Rightarrow> batch_entry list \<Rightarrow> batch_entry list" where
  "batch_loop item [] results = results"
| "batch_loop item (url # urls) results = batch_loop item urls (results @ [item url])"

text \<open>
  The code after the loop; \<open>start_time\<close> and \<open>end_time\<close> are the two readings of
  \<^verbatim>\<open>time.time()\<close>.
\<close>

definition batch_respond ::
  "json list \<Rightarrow> batch_entry list \<Rightarrow> real \<Rightarrow> real \<Rightarrow> string \<Rightarrow> string \<Rightarrow> string \<Rightarrow> real
     \<Rightarrow> batch_response" where
  "batch_respond urls results start_time end_time model detector metrics threshold =
     (let processing_time = end_time - start_time;
          matches = filter be_verified results
      in \<lparr>bv_success = True,
          bv_results = results,
          bv_summary =
            \<lparr>bs_total_images = length urls,
             bs_matches = length matches,
             bs_match_rate =
               (if urls \<noteq> [] then real (length matches) / real (length urls) else 0),
             bs_processing_time = processing_time,
             bs_avg_time_per_image =
               (if urls \<noteq> [] then processing_time / real (length urls) else 0)\<rparr>,
          bv_model = model, bv_detector = detector, bv_metrics = metrics,
          bv_threshold = threshold\<rparr>)"

text \<open>The outer \<^verbatim>\<open>try\<close> block of the handler.\<close>

definition batch_verify_try ::
  "('img, 'file) deepface_env \<Rightarrow> real \<Rightarrow> real \<Rightarrow> 'file \<Rightarrow> string \<Rightarrow> string \<Rightarrow> string \<Rightarrow> string
     \<Rightarrow> real \<Rightarrow> exn + batch_response" where
  "batch_verify_try env start_time end_time target_image image_urls model detector metrics
      threshold =
     (case load_image_from_file env target_image of
        Inl e \<Rightarrow> Inl e
      | Inr target_array \<Rightarrow>
          (case json_loads env image_urls of
             Inl e \<Rightarrow> Inl (LibraryError e)
           | Inr (JArray urls) \<Rightarrow>
               Inr (batch_respond urls
                      (batch_loop (batch_item env target_array model detector metrics threshold)
                         urls [])
                      start_time end_time model detector metrics threshold)
           | Inr _ \<Rightarrow> Inl (HTTPException 400 ''image_urls must be a JSON array'')))"

definition batch_verify ::
  "('img, 'file) deepface_env \<Rightarrow> real \<Rightarrow> real \<Rightarrow> 'file \<Rightarrow> string \<Rightarrow> string \<Rightarrow> string \<Rightarrow> string
     \<Rightarrow> real \<Rightarrow> exn + batch_response" where
  "batch_verify env start_time end_time target_image image_urls model detector metrics
      threshold =
     (if \<not> DEEPFACE_AVAILABLE env then Inl (HTTPException 503 ''DeepFace not available'')
      else
        (case batch_verify_try env start_time end_time target_image image_urls model detector
                metrics threshold of
           Inl e \<Rightarrow>
             Inl (HTTPException 500 (''Batch verification failed: '' @ str_exn (http_str env) e))
         | Inr response \<Rightarrow> Inr response))"

subsection \<open>Choosing the image source\<close>

text \<open>
  \<^verbatim>\<open>if image: ... elif image_url: ... else: raise HTTPException(400, ...)\<close>. An
  uploaded file object is truthy; a URL string is truthy when it is present and not
  empty.
\<close>

definition load_image_input ::
  "('img, 'file) deepface_env \<Rightarrow> 'file option \<Rightarrow> string option \<Rightarrow> string \<Rightarrow> exn + 'img" where
  "load_image_input env image_file image_url missing =
     (case image_file of
        Some file \<Rightarrow> load_image_from_file env file
      | None \<Rightarrow>
          (case image_url of
             None \<Rightarrow> Inl (HTTPException 400 missing)
           | Some url \<Rightarrow>
               (if url \<noteq> [] then load_image_from_url env (JStr url)
                else Inl (HTTPException 400 missing))))"

subsection \<open>/api/analyze\<close>

record region =
  rg_x :: int
  rg_y :: int
  rg_w :: int
  rg_h :: int

record face =
  fc_region :: region
  fc_confidence :: real
  fc_emotion :: string
  fc_emotions :: distribution
  fc_age :: int
  fc_gender :: string
  fc_gender_distribution :: distribution
  fc_race :: string
  fc_race_distribution :: distribution

record analyze_response =
  an_success :: bool
  an_faces :: "face list"
  an_face_count :: nat
  an_detector :: string
  an_message :: "string option"
  an_analysis_time :: real

text \<open>\<^verbatim>\<open>face.get("region", {}).get(key, 0)\<close>.\<close>

definition region_get :: "region_raw option \<Rightarrow> (region_raw \<Rightarrow> int option) \<Rightarrow> int" where
  "region_get r key = (case r of None \<Rightarrow> 0 | Some d \<Rightarrow> dict_get (key d) 0)"

definition convert_face :: "face_raw \<Rightarrow> face" where
  "convert_face f =
     \<lparr>fc_region =
        \<lparr>rg_x = region_get (fr_region f) rr_x, rg_y = region_get (fr_region f) rr_y,
         rg_w = region_get (fr_region f) rr_w, rg_h = region_get (fr_region f) rr_h\<rparr>,
      fc_confidence = dict_get (fr_confidence f) (9 / 10),
      fc_emotion = dict_get (fr_dominant_emotion f) ''neutral'',
      fc_emotions = dict_get (fr_emotion f) [],
      fc_age = dict_get (fr_age f) 0,
      fc_gender = dict_get (fr_dominant_gender f) ''unknown'',
      fc_gender_distribution = dict_get (fr_gender f) [],
      fc_race = dict_get (fr_dominant_race f) ''unknown'',
      fc_race_distribution = dict_get (fr_race f) []\<rparr>"

definition analyze_try ::
  "('img, 'file) deepface_env \<Rightarrow> real \<Rightarrow> 'file option \<Rightarrow> string option \<Rightarrow> string \<Rightarrow> bool
     \<Rightarrow> exn + analyze_response" where
  "analyze_try env now image_file image_url detector enforce_detection =
     (case load_image_input env image_file image_url
             ''Either image file or image_url must be provided'' of
        Inl e \<Rightarrow> Inl e
      | Inr img_array \<Rightarrow>
          (case DeepFace_analyze env img_array detector enforce_detection of
             Inl e \<Rightarrow> Inl (LibraryError e)
           | Inr analysis \<Rightarrow>
               (let faces = (case analysis of
                               AnalysisList fs \<Rightarrow> map convert_face fs
                             | AnalysisDict f \<Rightarrow> [convert_face f])
                in Inr \<lparr>an_success = True, an_faces = faces, an_face_count = length faces,
                        an_detector = detector, an_message = None,
                        an_analysis_time = now\<rparr>)))"

definition analyze_faces ::
  "('img, 'file) deepface_env \<Rightarrow> real \<Rightarrow> 'file option \<Rightarrow> string option \<Rightarrow> string \<Rightarrow> bool
     \<Rightarrow> exn + analyze_response" where
  "analyze_faces env now image_file image_url detector enforce_detection =
     (if \<not> DEEPFACE_AVAILABLE env then Inl (HTTPException 503 ''DeepFace not available'')
      else if detector \<notin> set AVAILABLE_DETECTORS then
        Inl (HTTPException 400
               (''Invalid detector. Available: '' @ py_repr_list AVAILABLE_DETECTORS))
      else
        (case analyze_try env now image_file image_url detector enforce_detection of
           Inr response \<Rightarrow> Inr response
         | Inl e \<Rightarrow>
             (let error_msg = str_exn (http_str env) e
              in if face_not_detected error_msg then
                   Inr \<lparr>an_success = True, an_faces = [], an_face_count = 0,
                        an_detector = detector,
                        an_message = Some ''No faces detected in the image'',
                        an_analysis_time = now\<rparr>
                 else Inl (HTTPException 500 (''Analysis failed: '' @ error_msg)))))"

subsection \<open>/api/verify\<close>

record verify_analysis =
  va_img1_face :: area
  va_img2_face :: area

text \<open>The two shapes of the response share the record; \<open>None\<close> is an absent key.\<close>

record verify_response =
  vf_success :: bool
  vf_verified :: bool
  vf_distance :: real
  vf_similarity :: real
  vf_threshold :: "real option"
  vf_message :: "string option"
  vf_model :: string
  vf_detector :: string
  vf_metrics :: string
  vf_processing_time :: "real option"
  vf_analysis :: "verify_analysis option"

definition facial_area ::
  "facial_areas option \<Rightarrow> (facial_areas \<Rightarrow> area option) \<Rightarrow> area" where
  "facial_area fa key = (case fa of None \<Rightarrow> [] | Some d \<Rightarrow> dict_get (key d) [])"

definition verify_try ::
  "('img, 'file) deepface_env \<Rightarrow> real \<Rightarrow> real \<Rightarrow> 'file option \<Rightarrow> 'file option \<Rightarrow> string option
     \<Rightarrow> string option \<Rightarrow> string \<Rightarrow> string \<Rightarrow> string \<Rightarrow> bool \<Rightarrow> exn + verify_response" where
  "verify_try env start_time end_time img1 img2 img1_url img2_url model detector metrics
      enforce_detection =
     (case load_image_input env img1 img1_url ''First image must be provided'' of
        Inl e \<Rightarrow> Inl e
      | Inr img1_array \<Rightarrow>
          (case load_image_input env img2 img2_url ''Second image must be provided'' of
             Inl e \<Rightarrow> Inl e
           | Inr img2_array \<Rightarrow>
               (case DeepFace_verify env img1_array img2_array model detector metrics
                       enforce_detection of
                  Inl e \<Rightarrow> Inl (LibraryError e)
                | Inr result \<Rightarrow>
                    Inr \<lparr>vf_success = True,
                         vf_verified = dict_get (vr_verified result) False,
                         vf_distance = dict_get (vr_distance result) 1,
                         vf_similarity = 1 - dict_get (vr_distance result) 1,
                         vf_threshold = Some (dict_get (vr_threshold result) (4 / 10)),
                         vf_message = None,
                         vf_model = model, vf_detector = detector, vf_metrics = metrics,
                         vf_processing_time = Some (end_time - start_time),
                         vf_analysis =
                           Some \<lparr>va_img1_face = facial_area (vr_facial_areas result) fa_img1,
                                 va_img2_face =
                                   facial_area (vr_facial_areas result) fa_img2\<rparr>\<rparr>)))"

definition verify_faces ::
  "('img, 'file) deepface_env \<Rightarrow> real \<Rightarrow> real \<Rightarrow> 'file option \<Rightarrow> 'file option \<Rightarrow> string option
     \<Rightarrow> string option \<Rightarrow> string \<Rightarrow> string \<Rightarrow> string \<Rightarrow> bool \<Rightarrow> exn + verify_response" where
  "verify_faces env start_time end_time img1 img2 img1_url img2_url model detector metrics
      enforce_detection =
     (if \<not> DEEPFACE_AVAILABLE env then Inl (HTTPException 503 ''DeepFace not available'')
      else if model \<notin> set AVAILABLE_MODELS then
        Inl (HTTPException 400 (''Invalid model. Available: '' @ py_repr_list AVAILABLE_MODELS))
      else if detector \<notin> set AVAILABLE_DETECTORS then
        Inl (HTTPException 400
               (''Invalid detector. Available: '' @ py_repr_list AVAILABLE_DETECTORS))
      else if metrics \<notin> set AVAILABLE_METRICS then
        Inl (HTTPException 400
               (''Invalid metric. Available: '' @ py_repr_list AVAILABLE_METRICS))
      else
        (case verify_try env start_time end_time img1 img2 img1_url img2_url model detector
                metrics enforce_detection of
           Inr response \<Rightarrow> Inr response
         | Inl e \<Rightarrow>
             (let error_msg = str_exn (http_str env) e
              in if face_not_detected error_msg then
                   Inr \<lparr>vf_success = True, vf_verified = False, vf_distance = 1,
                        vf_similarity = 0, vf_threshold = None,
                        vf_message = Some ''Face could not be detected in one or both images'',
                        vf_model = model, vf_detector = detector, vf_metrics = metrics,
                        vf_processing_time = None, vf_analysis = None\<rparr>
                 else Inl (HTTPException 500 (''Verification failed: '' @ error_msg)))))"

subsection \<open>/api/detect\<close>

record face_region =
  fg_width :: nat
  fg_height :: nat

record detect_response =
  dt_success :: bool
  dt_faces :: "face_region list"
  dt_face_count :: nat
  dt_detector :: string
  dt_message :: "string option"

text \<open>\<^verbatim>\<open>h, w = shape[:2]\<close>: a shape of fewer than two dimensions raises ValueError.\<close>

fun unpack_hw :: "nat list \<Rightarrow> string + (nat \<times> nat)" where
  "unpack_hw [] = Inl ''not enough values to unpack (expected 2, got 0)''"
| "unpack_hw [h] = Inl ''not enough values to unpack (expected 2, got 1)''"
| "unpack_hw (h # w # rest) = Inr (h, w)"

fun detect_loop :: "face_obj list \<Rightarrow> face_region list \<Rightarrow> string + face_region list" where
  "detect_loop [] face_regions = Inr face_regions"
| "detect_loop (ObjArray shape # faces) face_regions =
     (case unpack_hw shape of
        Inl e \<Rightarrow> Inl e
      | Inr (h, w) \<Rightarrow> detect_loop faces (face_regions @ [\<lparr>fg_width = w, fg_height = h\<rparr>]))"
| "detect_loop (ObjDict (Some (FaceArray shape)) # faces) face_regions =
     (case unpack_hw shape of
        Inl e \<Rightarrow> Inl e
      | Inr (h, w) \<Rightarrow> detect_loop faces (face_regions @ [\<lparr>fg_width = w, fg_height = h\<rparr>]))"
| "detect_loop (other # faces) face_regions = detect_loop faces face_regions"

definition detect_try ::
  "('img, 'file) deepface_env \<Rightarrow> 'file option \<Rightarrow> string option \<Rightarrow> string
     \<Rightarrow> exn + detect_response" where
  "detect_try env image_file image_url detector =
     (case load_image_input env image_file image_url
             ''Either image file or image_url must be provided'' of
        Inl e \<Rightarrow> Inl e
      | Inr img_array \<Rightarrow>
          (case extract_faces env img_array detector False of
             Inl e \<Rightarrow> Inl (LibraryError e)
           | Inr faces \<Rightarrow>
               (case detect_loop faces [] of
                  Inl e \<Rightarrow> Inl (LibraryError e)
                | Inr face_regions \<Rightarrow>
                    Inr \<lparr>dt_success = True, dt_faces = face_regions,
                         dt_face_count = length face_regions, dt_detector = detector,
                         dt_message = None\<rparr>)))"

definition detect_faces ::
  "('img, 'file) deepface_env \<Rightarrow> 'file option \<Rightarrow> string option \<Rightarrow> string
     \<Rightarrow> exn + detect_response" where
  "detect_faces env image_file image_url detector =
     (if \<not> DEEPFACE_AVAILABLE env then Inl (HTTPException 503 ''DeepFace not available'')
      else
        (case detect_try env image_file image_url detector of
           Inr response \<Rightarrow> Inr response
         | Inl e \<Rightarrow>
             (let error_msg = str_exn (http_str env) e
              in if face_not_detected error_msg then
                   Inr \<lparr>dt_success = True, dt_faces = [], dt_face_count = 0,
                        dt_detector = detector, dt_message = Some ''No faces detected''\<rparr>
                 else Inl (HTTPException 500 (''Detection failed: '' @ error_msg)))))"

section \<open>src/config/face_matching.py\<close>

type_synonym bytes = "nat list"
type_synonym encoding = "real list"
type_synonym location = "nat \<times> nat \<times> nat \<times> nat"

record http_reply =
  hr_status :: nat
  hr_body :: "string + bytes"

text \<open>
  The collaborators of \<^verbatim>\<open>face_matching.py\<close>: the upload's \<^verbatim>\<open>read\<close>, the
  \<^verbatim>\<open>face_recognition\<close> library and the HTTP session. \<open>face_distance a b\<close> is
  \<^verbatim>\<open>face_recognition.face_distance([a], b)[0]\<close>.
\<close>

record ('img, 'file) facerec_env =
  fm_http_str :: "nat \<Rightarrow> string \<Rightarrow> string"
  upload_read :: "'file \<Rightarrow> string + bytes"
  load_image_file :: "bytes \<Rightarrow> string + 'img"
  face_locations :: "'img \<Rightarrow> string + location list"
  face_encodings :: "'img \<Rightarrow> location list \<Rightarrow> string + encoding list"
  face_distance :: "encoding \<Rightarrow> encoding \<Rightarrow> string + real"
  session_get :: "string \<Rightarrow> string + http_reply"

definition FACE_MATCH_THRESHOLD :: real where
  "FACE_MATCH_THRESHOLD = 6 / 10"

text \<open>\<^verbatim>\<open>FaceMatchingService.extract_face_encoding\<close>: every exception becomes \<open>None\<close>.\<close>

definition service_extract_face_encoding ::
  "('img, 'file) facerec_env \<Rightarrow> bytes \<Rightarrow> encoding option" where
  "service_extract_face_encoding env image_bytes =
     (case load_image_file env image_bytes of
        Inl e \<Rightarrow> None
      | Inr img \<Rightarrow>
          (case face_locations env img of
             Inl e \<Rightarrow> None
           | Inr locations \<Rightarrow>
               (if length locations = 0 then None
                else
                  (case face_encodings env img locations of
                     Inl e \<Rightarrow> None
                   | Inr [] \<Rightarrow> None
                   | Inr (first # rest) \<Rightarrow> Some first))))"

definition download_image :: "('img, 'file) facerec_env \<Rightarrow> string \<Rightarrow> bytes option" where
  "download_image env url =
     (case session_get env url of
        Inl e \<Rightarrow> None
      | Inr response \<Rightarrow>
          (if hr_status response = 200 then
             (case hr_body response of Inl e \<Rightarrow> None | Inr content \<Rightarrow> Some content)
           else None))"

text \<open>An element of \<open>event_images\<close>; \<open>None\<close> is an absent key (KeyError when read).\<close>

record event_image =
  ei_id :: "string option"
  ei_url :: "string option"
  ei_originalName :: "string option"

record matching_image =
  mi_file_id :: string
  mi_file_url :: string
  mi_file_name :: string
  mi_similarity :: real
  mi_confidence :: real
  mi_face_distance :: real

definition dict_item :: "string \<Rightarrow> 'a option \<Rightarrow> string + 'a" where
  "dict_item key v = (case v of None \<Rightarrow> Inl (py_repr_str key) | Some x \<Rightarrow> Inr x)"

text \<open>
  The loop over the encodings of one event image: \<open>Inr (Some m)\<close> when \<open>m\<close> was
  appended (followed by \<^verbatim>\<open>break\<close>), \<open>Inr None\<close> when the loop ran out, \<open>Inl\<close> when
  a step raised.
\<close>

fun compare_encodings ::
  "('img, 'file) facerec_env \<Rightarrow> encoding \<Rightarrow> event_image \<Rightarrow> encoding list
     \<Rightarrow> string + matching_image option" where
  "compare_encodings env selfie_encoding ev [] = Inr None"
| "compare_encodings env selfie_encoding ev (event_encoding # rest) =
     (case face_distance env selfie_encoding event_encoding of
        Inl e \<Rightarrow> Inl e
      | Inr d \<Rightarrow>
          (let similarity = 1 - d
           in if similarity \<ge> FACE_MATCH_THRESHOLD then
                (case dict_item ''_id'' (ei_id ev) of
                   Inl e \<Rightarrow> Inl e
                 | Inr file_id \<Rightarrow>
                     (case dict_item ''url'' (ei_url ev) of
                        Inl e \<Rightarrow> Inl e
                      | Inr file_url \<Rightarrow>
                          (case dict_item ''originalName'' (ei_originalName ev) of
                             Inl e \<Rightarrow> Inl e
                           | Inr file_name \<Rightarrow>
                               Inr (Some \<lparr>mi_file_id = file_id, mi_file_url = file_url,
                                          mi_file_name = file_name,
                                          mi_similarity = similarity,
                                          mi_confidence = similarity * 100,
                                          mi_face_distance = d\<rparr>))))
              else compare_encodings env selfie_encoding ev rest))"

text \<open>The inner \<^verbatim>\<open>try\<close> for one event image; empty bytes are falsy.\<close>

definition process_event_image ::
  "('img, 'file) facerec_env \<Rightarrow> encoding \<Rightarrow> event_image \<Rightarrow> string + matching_image option" where
  "process_event_image env selfie_encoding ev =
     (case dict_item ''url'' (ei_url ev) of
        Inl e \<Rightarrow> Inl e
      | Inr url \<Rightarrow>
          (case download_image env url of
             None \<Rightarrow> Inr None
           | Some event_image_bytes \<Rightarrow>
               (if event_image_bytes = [] then Inr None
                else
                  (case load_image_file env event_image_bytes of
                     Inl e \<Rightarrow> Inl e
                   | Inr img \<Rightarrow>
                       (case load_image_file env event_image_bytes of
                          Inl e \<Rightarrow> Inl e
                        | Inr image2 \<Rightarrow>
                            (case face_locations env image2 of
                               Inl e \<Rightarrow> Inl e
                             | Inr locations \<Rightarrow>
                                 (case face_encodings env img locations of
                                    Inl e \<Rightarrow> Inl e
                                  | Inr event_face_encodings \<Rightarrow>
                                      compare_encodings env selfie_encoding ev
                                        event_face_encodings)))))))"

text \<open>\<^verbatim>\<open>for event_image in event_images\<close>; the \<^verbatim>\<open>except\<close> continues.\<close>

fun matching_loop ::
  "('img, 'file) facerec_env \<Rightarrow> encoding \<Rightarrow> event_image list \<Rightarrow> matching_image list
     \<Rightarrow> matching_image list" where
  "matching_loop env selfie_encoding [] matching_images = matching_images"
| "matching_loop env selfie_encoding (ev # evs) matching_images =
     (case process_event_image env selfie_encoding ev of
        Inl e \<Rightarrow> matching_loop env selfie_encoding evs matching_images
      | Inr None \<Rightarrow> matching_loop env selfie_encoding evs matching_images
      | Inr (Some m) \<Rightarrow> matching_loop env selfie_encoding evs (matching_images @ [m]))"

text \<open>
  \<^verbatim>\<open>xs.sort(key=k, reverse=True)\<close>: Python reverses the list, sorts it stably in
  ascending order and reverses the result.
\<close>

definition py_sort_reverse :: "('a \<Rightarrow> real) \<Rightarrow> 'a list \<Rightarrow> 'a list" where
  "py_sort_reverse k xs = rev (sort_key k (rev xs))"

definition find_matching_faces ::
  "('img, 'file) facerec_env \<Rightarrow> bytes \<Rightarrow> event_image list \<Rightarrow> matching_image list" where
  "find_matching_faces env selfie_bytes event_images =
     (case service_extract_face_encoding env selfie_bytes of
        None \<Rightarrow> []
      | Some selfie_encoding \<Rightarrow>
          py_sort_reverse mi_similarity (matching_loop env selfie_encoding event_images []))"

subsection \<open>/api/face-match/extract-encoding\<close>

record encoding_response =
  ee_success :: bool
  ee_encoding :: encoding
  ee_encoding_length :: nat

definition extract_face_encoding_try ::
  "('img, 'file) facerec_env \<Rightarrow> 'file \<Rightarrow> exn + encoding_response" where
  "extract_face_encoding_try env image_file =
     (case upload_read env image_file of
        Inl e \<Rightarrow> Inl (LibraryError e)
      | Inr image_bytes \<Rightarrow>
          (case service_extract_face_encoding env image_bytes of
             None \<Rightarrow> Inl (HTTPException 400 ''No face detected in image'')
           | Some encoding \<Rightarrow>
               Inr \<lparr>ee_success = True, ee_encoding = encoding,
                    ee_encoding_length = length encoding\<rparr>))"

definition extract_face_encoding ::
  "('img, 'file) facerec_env \<Rightarrow> 'file \<Rightarrow> exn + encoding_response" where
  "extract_face_encoding env image_file =
     (case extract_face_encoding_try env image_file of
        Inl e \<Rightarrow> Inl (HTTPException 500 (str_exn (fm_http_str env) e))
      | Inr response \<Rightarrow> Inr response)"

subsection \<open>/api/face-match/compare-faces\<close>

record compare_response =
  cf_success :: bool
  cf_distance :: real
  cf_similarity :: real
  cf_match :: bool

definition compare_faces ::
  "('img, 'file) facerec_env \<Rightarrow> encoding \<Rightarrow> encoding \<Rightarrow> exn + compare_response" where
  "compare_faces env encoding1 encoding2 =
     (case face_distance env encoding1 encoding2 of
        Inl e \<Rightarrow> Inl (HTTPException 500 e)
      | Inr distance \<Rightarrow>
          (let similarity = 1 - distance
           in Inr \<lparr>cf_success = True, cf_distance = distance, cf_similarity = similarity,
                   cf_match = (similarity \<ge> FACE_MATCH_THRESHOLD)\<rparr>))"

section \<open>A concrete environment\<close>

text \<open>
  An environment on which the handlers can be run: the framework renders an
  \<^verbatim>\<open>HTTPException\<close> as \<^verbatim>\<open>f"{status_code}: {detail}"\<close>, upload \<open>0\<close> decodes to
  image \<open>100\<close>, upload \<open>5\<close> to image \<open>50\<close>, which shows no face, \<^verbatim>\<open>urlA\<close> and
  \<^verbatim>\<open>urlC\<close> can be fetched (images \<open>11\<close> and \<open>13\<close>, at distances \<open>0.2\<close> and
  \<open>0.7\<close> from any target) and every other URL answers 404. An unknown model or
  detector makes the library raise.
\<close>

definition digit_char :: "nat \<Rightarrow> char" where
  "digit_char d =
     (if d = 0 then CHR ''0'' else if d = 1 then CHR ''1'' else if d = 2 then CHR ''2''
      else if d = 3 then CHR ''3'' else if d = 4 then CHR ''4'' else if d = 5 then CHR ''5''
      else if d = 6 then CHR ''6'' else if d = 7 then CHR ''7'' else if d = 8 then CHR ''8''
      else CHR ''9'')"

fun decimal :: "nat \<Rightarrow> string" where
  "decimal n =
     (if n < 10 then [digit_char n] else decimal (n div 10) @ [digit_char (n mod 10)])"

declare decimal.simps [simp del]

definition starlette_str :: "nat \<Rightarrow> string \<Rightarrow> string" where
  "starlette_str status_code detail = decimal status_code @ '': '' @ detail"

definition example_urls :: string where
  \<open>example_urls = ''["urlA", "urlB", "urlC"]''\<close>

definition example_urls_twice :: string where
  \<open>example_urls_twice = ''["urlA", "urlA"]''\<close>

definition no_face_message :: string where
  "no_face_message =
     ''Face could not be detected. Please confirm that the picture is a face photo.''"

definition example_env :: "(nat, nat) deepface_env" where
  "example_env =
     \<lparr>DEEPFACE_AVAILABLE = True,
      http_str = starlette_str,
      decode_upload =
        (\<lambda>file. if file = 0 then Inr 100 else if file = 5 then Inr 50
                else Inl ''cannot identify image file''),
      fetch_url =
        (\<lambda>url. if url = JStr ''urlA'' then Inr 11
               else if url = JStr ''urlC'' then Inr 13
               else Inl ''404 Client Error: Not Found''),
      json_loads =
        (\<lambda>s. if s = example_urls
                then Inr (JArray [JStr ''urlA'', JStr ''urlB'', JStr ''urlC''])
              else if s = example_urls_twice then Inr (JArray [JStr ''urlA'', JStr ''urlA''])
              else if s = ''[]'' then Inr (JArray [])
              else Inl ''Expecting value: line 1 column 1 (char 0)''),
      DeepFace_analyze =
        (\<lambda>img detector enforce.
           if img = 50 then Inl no_face_message
           else Inr (AnalysisList
                  [\<lparr>fr_region = Some \<lparr>rr_x = Some 40, rr_y = Some 30, rr_w = Some 120,
                                       rr_h = Some 120\<rparr>,
                    fr_confidence = None, fr_dominant_emotion = Some ''happy'',
                    fr_emotion = None, fr_age = Some 31, fr_dominant_gender = Some ''Woman'',
                    fr_gender = None, fr_dominant_race = None, fr_race = None\<rparr>])),
      DeepFace_verify =
        (\<lambda>img1 img2 model detector metrics enforce.
           if model \<notin> set AVAILABLE_MODELS then Inl (''Invalid model_name passed - '' @ model)
           else if img2 = 11 then
             Inr \<lparr>vr_verified = Some True, vr_distance = Some (1 / 5),
                  vr_threshold = Some (2 / 5), vr_facial_areas = None\<rparr>
           else if img2 = 13 then
             Inr \<lparr>vr_verified = Some False, vr_distance = Some (7 / 10),
                  vr_threshold = Some (2 / 5), vr_facial_areas = None\<rparr>
           else Inl no_face_message),
      extract_faces =
        (\<lambda>img detector enforce.
           if detector \<notin> set AVAILABLE_DETECTORS
             then Inl (''invalid detector_backend passed - '' @ detector)
           else if img = 50 then Inl no_face_message
           else Inr [ObjDict (Some (FaceArray [224, 224, 3]))])\<rparr>"

text \<open>
  An environment for \<^verbatim>\<open>face_matching.py\<close>: an image is known by its first byte, its
  single encoding is that number, and two encodings are a tenth of their difference
  apart. Image \<open>99\<close> shows no face. Upload \<open>0\<close> holds image \<open>10\<close>, upload \<open>2\<close>
  holds image \<open>99\<close>.
\<close>

definition example_fenv :: "(nat, nat) facerec_env" where
  "example_fenv =
     \<lparr>fm_http_str = starlette_str,
      upload_read =
        (\<lambda>file. if file = 0 then Inr [10] else if file = 2 then Inr [99]
               else Inl ''read failed''),
      load_image_file =
        (\<lambda>content. case content of [] \<Rightarrow> Inl ''cannot identify image file'' | b # bs \<Rightarrow> Inr b),
      face_locations = (\<lambda>img. if img = 99 then Inr [] else Inr [(0, 10, 10, 0)]),
      face_encodings = (\<lambda>img locations. Inr (map (\<lambda>l. [real img]) locations)),
      face_distance =
        (\<lambda>known candidate.
           case (known, candidate) of
             ([x], [y]) \<Rightarrow> Inr (\<bar>x - y\<bar> / 10)
           | _ \<Rightarrow> Inl ''operands could not be broadcast together''),
      session_get =
        (\<lambda>url. if url = ''u9'' then Inr \<lparr>hr_status = 200, hr_body = Inr [9]\<rparr>
               else if url = ''u8'' then Inr \<lparr>hr_status = 200, hr_body = Inr [8]\<rparr>
               else if url = ''u8b'' then Inr \<lparr>hr_status = 200, hr_body = Inr [8]\<rparr>
               else if url = ''u2'' then Inr \<lparr>hr_status = 200, hr_body = Inr [2]\<rparr>
               else Inr \<lparr>hr_status = 404, hr_body = Inr []\<rparr>)\<rparr>"

definition example_event :: "string \<Rightarrow> event_image" where
  "example_event url =
     \<lparr>ei_id = Some (''id-'' @ url), ei_url = Some url, ei_originalName = Some (url @ ''.jpg'')\<rparr>"

definition example_events :: "event_image list" where
  "example_events = map example_event [''u8'', ''u2'', ''u9'', ''gone'', ''u8b'']"

section \<open>Properties\<close>

subsection \<open>The batch handler in closed form\<close>

lemma batch_loop_map: "batch_loop item urls results = results @ map item urls"
  by (induction urls arbitrary: results) simp_all

lemma batch_verify_ok:
  assumes "DEEPFACE_AVAILABLE env"
      and "decode_upload env target_image = Inr target_array"
      and "json_loads env image_urls = Inr (JArray urls)"
  shows "batch_verify env start_time end_time target_image image_urls model detector metrics
           threshold =
         Inr (batch_respond urls
                (map (batch_item env target_array model detector metrics threshold) urls)
                start_time end_time model detector metrics threshold)"
  using assms
  by (simp add: batch_verify_def batch_verify_try_def load_image_from_file_def batch_loop_map)

lemma batch_verify_Inr:
  assumes "batch_verify env start_time end_time target_image image_urls model detector metrics
             threshold = Inr r"
  shows "\<exists>target_array urls.
           DEEPFACE_AVAILABLE env \<and> decode_upload env target_image = Inr target_array \<and>
           json_loads env image_urls = Inr (JArray urls) \<and>
           r = batch_respond urls
                 (map (batch_item env target_array model detector metrics threshold) urls)
                 start_time end_time model detector metrics threshold"
  using assms
  by (auto simp: batch_verify_def batch_verify_try_def load_image_from_file_def batch_loop_map
           split: if_splits sum.splits json.splits)

lemma be_url_batch_item [simp]:
  "be_url (batch_item env target_array model detector metrics threshold url) = url"
  by (simp add: batch_item_def batch_error_entry_def Let_def split: sum.splits)

lemma bv_results_batch_respond [simp]:
  "bv_results (batch_respond urls results t0 t1 model detector metrics threshold) = results"
  by (simp add: batch_respond_def Let_def)

subsection \<open>The sort of the matches\<close>

lemma sorted_py_sort_reverse:
  "sorted_wrt (\<ge>) (map k (py_sort_reverse k xs))"
proof -
  have "sorted (map k (sort_key k (rev xs)))" by simp
  then have "sorted_wrt (\<ge>) (rev (map k (sort_key k (rev xs))))"
    by (simp add: sorted_wrt_rev)
  then show ?thesis by (simp add: py_sort_reverse_def rev_map)
qed

lemma stable_py_sort_reverse:
  "filter (\<lambda>x. k x = v) (py_sort_reverse k xs) = filter (\<lambda>x. k x = v) xs"
proof -
  have "filter (\<lambda>x. k x = v) (py_sort_reverse k xs) =
        rev (filter (\<lambda>x. k x = v) (sort_key k (rev xs)))"
    by (simp add: py_sort_reverse_def rev_filter)
  also have "\<dots> = rev (filter (\<lambda>x. k x = v) (rev xs))"
    by (simp only: sort_key_stable)
  also have "\<dots> = filter (\<lambda>x. k x = v) xs"
    by (simp add: rev_filter)
  finally show ?thesis .
qed

lemma compare_encodings_url:
  "compare_encodings env enc ev encs = Inr (Some m) \<Longrightarrow> ei_url ev = Some (mi_file_url m)"
  by (induction encs)
     (auto simp: Let_def dict_item_def split: sum.splits if_splits option.splits)

lemma process_event_image_url:
  "process_event_image env enc ev = Inr (Some m) \<Longrightarrow> ei_url ev = Some (mi_file_url m)"
  by (auto simp: process_event_image_def dict_item_def
           split: sum.splits if_splits option.splits dest: compare_encodings_url)

lemma matching_loop_append:
  "\<exists>ms. matching_loop env enc evs acc = acc @ ms \<and>
        subseq (map mi_file_url ms) (List.map_filter ei_url evs)"
proof (induction evs arbitrary: acc)
  case Nil
  then show ?case by simp
next
  case (Cons ev evs)
  show ?case
  proof (cases "process_event_image env enc ev")
    case (Inl e)
    with Cons [of acc] show ?thesis
      by (auto split: option.splits)
  next
    case (Inr found)
    show ?thesis
    proof (cases found)
      case None
      with Inr Cons [of acc] show ?thesis
        by (auto split: option.splits)
    next
      case (Some m)
      from Cons [of "acc @ [m]"] obtain ms where
        ms: "matching_loop env enc evs (acc @ [m]) = (acc @ [m]) @ ms"
            "subseq (map mi_file_url ms) (List.map_filter ei_url evs)"
        by blast
      from Some Inr have "ei_url ev = Some (mi_file_url m)"
        by (simp add: process_event_image_url)
      with ms Some Inr show ?thesis
        by (intro exI [of _ "m # ms"]) simp
    qed
  qed
qed

lemma matching_loop_subseq:
  "subseq (map mi_file_url (matching_loop env enc evs [])) (List.map_filter ei_url evs)"
  using matching_loop_append [of env enc evs "[]"] by auto

subsection \<open>The concrete environments, evaluated\<close>

lemma example_env_simps [simp]:
  "DEEPFACE_AVAILABLE example_env"
  "http_str example_env = starlette_str"
  "decode_upload example_env 0 = Inr 100"
  "decode_upload example_env 5 = Inr 50"
  "json_loads example_env example_urls =
     Inr (JArray [JStr ''urlA'', JStr ''urlB'', JStr ''urlC''])"
  "json_loads example_env example_urls_twice = Inr (JArray [JStr ''urlA'', JStr ''urlA''])"
  "json_loads example_env ''[]'' = Inr (JArray [])"
  "fetch_url example_env (JStr ''urlA'') = Inr 11"
  "fetch_url example_env (JStr ''urlB'') = Inl ''404 Client Error: Not Found''"
  "fetch_url example_env (JStr ''urlC'') = Inr 13"
  by (simp_all add: example_env_def example_urls_def example_urls_twice_def)

lemma example_batch:
  "batch_verify example_env 0 1 0 example_urls ''VGG-Face'' ''opencv'' ''cosine'' (3 / 5) =
     Inr (batch_respond [JStr ''urlA'', JStr ''urlB'', JStr ''urlC'']
            (map (batch_item example_env 100 ''VGG-Face'' ''opencv'' ''cosine'' (3 / 5))
               [JStr ''urlA'', JStr ''urlB'', JStr ''urlC''])
            0 1 ''VGG-Face'' ''opencv'' ''cosine'' (3 / 5))"
  by (rule batch_verify_ok) simp_all

lemma example_verify_simps [simp]:
  "DeepFace_verify example_env a 11 ''VGG-Face'' d m e =
     Inr \<lparr>vr_verified = Some True, vr_distance = Some (1 / 5),
          vr_threshold = Some (2 / 5), vr_facial_areas = None\<rparr>"
  "DeepFace_verify example_env a 13 ''VGG-Face'' d m e =
     Inr \<lparr>vr_verified = Some False, vr_distance = Some (7 / 10),
          vr_threshold = Some (2 / 5), vr_facial_areas = None\<rparr>"
  by (simp_all add: example_env_def AVAILABLE_MODELS_def)

lemma example_items:
  "batch_item example_env 100 ''VGG-Face'' ''opencv'' ''cosine'' (3 / 5) (JStr ''urlA'') =
     \<lparr>be_url = JStr ''urlA'', be_verified = True, be_distance = 1 / 5,
      be_similarity = 4 / 5, be_match = True, be_error = None\<rparr>"
  "batch_item example_env 100 ''VGG-Face'' ''opencv'' ''cosine'' (3 / 5) (JStr ''urlB'') =
     batch_error_entry (JStr ''urlB'')
       (starlette_str 400 ''Failed to load image from URL: 404 Client Error: Not Found'')"
  "batch_item example_env 100 ''VGG-Face'' ''opencv'' ''cosine'' (3 / 5) (JStr ''urlC'') =
     \<lparr>be_url = JStr ''urlC'', be_verified = False, be_distance = 7 / 10,
      be_similarity = 3 / 10, be_match = False, be_error = None\<rparr>"
  by (simp_all add: batch_item_def load_image_from_url_def dict_get_def Let_def)

lemma example_fenv_simps [simp]:
  "upload_read example_fenv 0 = Inr [10]"
  "upload_read example_fenv 2 = Inr [99]"
  "load_image_file example_fenv (b # bs) = Inr b"
  "face_locations example_fenv 99 = Inr []"
  "face_locations example_fenv 10 = Inr [(0, 10, 10, 0)]"
  "face_locations example_fenv 2 = Inr [(0, 10, 10, 0)]"
  "face_locations example_fenv 8 = Inr [(0, 10, 10, 0)]"
  "face_locations example_fenv 9 = Inr [(0, 10, 10, 0)]"
  "face_encodings example_fenv img [l] = Inr [[real img]]"
  "face_distance example_fenv [x] [y] = Inr (\<bar>x - y\<bar> / 10)"
  "fm_http_str example_fenv = starlette_str"
  by (simp_all add: example_fenv_def)

lemma example_downloads [simp]:
  "download_image example_fenv ''u2'' = Some [2]"
  "download_image example_fenv ''u8'' = Some [8]"
  "download_image example_fenv ''u8b'' = Some [8]"
  "download_image example_fenv ''u9'' = Some [9]"
  "download_image example_fenv ''gone'' = None"
  by (simp_all add: download_image_def example_fenv_def)

lemma example_selfie [simp]: "service_extract_face_encoding example_fenv [10] = Some [10]"
  by (simp add: service_extract_face_encoding_def)

lemma example_matches:
  "matching_loop example_fenv [10] example_events [] =
     [\<lparr>mi_file_id = ''id-u8'', mi_file_url = ''u8'', mi_file_name = ''u8.jpg'',
       mi_similarity = 4 / 5, mi_confidence = 80, mi_face_distance = 1 / 5\<rparr>,
      \<lparr>mi_file_id = ''id-u9'', mi_file_url = ''u9'', mi_file_name = ''u9.jpg'',
       mi_similarity = 9 / 10, mi_confidence = 90, mi_face_distance = 1 / 10\<rparr>,
      \<lparr>mi_file_id = ''id-u8b'', mi_file_url = ''u8b'', mi_file_name = ''u8b.jpg'',
       mi_similarity = 4 / 5, mi_confidence = 80, mi_face_distance = 1 / 5\<rparr>]"
  by (simp add: example_events_def example_event_def process_event_image_def dict_item_def
        FACE_MATCH_THRESHOLD_def Let_def)

lemma example_found:
  "map mi_file_url (find_matching_faces example_fenv [10] example_events) =
     [''u9'', ''u8'', ''u8b'']"
  by (simp add: find_matching_faces_def example_matches py_sort_reverse_def)

subsection \<open>One entry per candidate\<close>

text \<open>
  C2. When the candidate list parses to a JSON array, every response of batch-verify
  carries exactly one result entry per input URL, in the input's order and each with
  its own URL (so a URL given twice has two entries), whatever the fetches and
  comparisons do; and a response is returned as soon as DeepFace is available and the
  target image decodes.
\<close>

theorem batch_verify_one_entry_per_url:
  assumes "json_loads env image_urls = Inr (JArray urls)"
  shows "(\<forall>r. batch_verify env start_time end_time target_image image_urls model detector
               metrics threshold = Inr r \<longrightarrow>
              length (bv_results r) = length urls \<and> map be_url (bv_results r) = urls) \<and>
         (DEEPFACE_AVAILABLE env \<and> (\<exists>a. decode_upload env target_image = Inr a) \<longrightarrow>
            (\<exists>r. batch_verify env start_time end_time target_image image_urls model detector
                   metrics threshold = Inr r))"
proof (intro conjI allI impI)
  fix r
  assume "batch_verify env start_time end_time target_image image_urls model detector
            metrics threshold = Inr r"
  from batch_verify_Inr [OF this] assms
  obtain a where r: "r = batch_respond urls
                 (map (batch_item env a model detector metrics threshold) urls)
                 start_time end_time model detector metrics threshold"
    by auto
  show "length (bv_results r) = length urls" by (simp add: r)
  show "map be_url (bv_results r) = urls" by (simp add: r comp_def)
next
  assume "DEEPFACE_AVAILABLE env \<and> (\<exists>a. decode_upload env target_image = Inr a)"
  then show "\<exists>r. batch_verify env start_time end_time target_image image_urls model detector
                   metrics threshold = Inr r"
    using batch_verify_ok [OF _ _ assms] by blast
qed

theorem batch_verify_one_entry_per_url_witness:
  "\<exists>r. batch_verify example_env 0 1 0 example_urls_twice ''VGG-Face'' ''opencv'' ''cosine''
          (3 / 5) = Inr r \<and>
       length (bv_results r) = 2 \<and>
       map be_url (bv_results r) = [JStr ''urlA'', JStr ''urlA'']"
proof -
  have parsed: "json_loads example_env example_urls_twice =
                  Inr (JArray [JStr ''urlA'', JStr ''urlA''])"
    by simp
  have loaded: "DEEPFACE_AVAILABLE example_env \<and> (\<exists>a. decode_upload example_env 0 = Inr a)"
    by simp
  from batch_verify_one_entry_per_url
         [OF parsed, of 0 1 0 "''VGG-Face''" "''opencv''" "''cosine''" "3 / 5"] loaded
  show ?thesis by fastforce
qed

subsection \<open>The order of the results\<close>

lemma sorted_wrt_three:
  "sorted_wrt (\<ge>) [a, b, c :: real] \<longleftrightarrow> a \<ge> b \<and> a \<ge> c \<and> b \<ge> c"
  by auto

text \<open>
  C1, as stated, fails: on the candidates A (similarity 0.8), B (unreachable) and C
  (similarity 0.3), batch-verify answers with the similarities 0.8, 0, 0.3 in the order
  of the input, which is not descending.
\<close>

theorem batch_verify_sorted_counterexample:
  "\<not> isl (batch_verify example_env 0 1 0 example_urls ''VGG-Face'' ''opencv'' ''cosine''
            (3 / 5)) \<and>
   \<not> sorted_wrt (\<ge>)
       (map be_similarity
          (bv_results
             (projr (batch_verify example_env 0 1 0 example_urls ''VGG-Face'' ''opencv''
                       ''cosine'' (3 / 5)))))"
  by (simp add: example_batch example_items batch_error_entry_def sorted_wrt_three
           del: sorted_wrt.simps)

text \<open>
  C1, as the code has it. batch-verify returns its entries in the order of the input
  URLs, entry \<open>i\<close> being the entry of URL \<open>i\<close>, whatever the similarities: the handler
  does not sort. The sort is in \<^verbatim>\<open>find_matching_faces\<close>: its list is in descending
  order of similarity, the matches of equal similarity stand in the order in which the
  loop appended them, and that order follows the event images.
\<close>

theorem results_order:
  "(DEEPFACE_AVAILABLE env \<and> decode_upload env target_image = Inr target_array \<and>
    json_loads env image_urls = Inr (JArray urls) \<longrightarrow>
      (\<exists>r. batch_verify env start_time end_time target_image image_urls model detector
              metrics threshold = Inr r \<and>
           bv_results r =
             map (batch_item env target_array model detector metrics threshold) urls)) \<and>
   sorted_wrt (\<ge>) (map mi_similarity (find_matching_faces fenv selfie_bytes event_images)) \<and>
   (\<forall>selfie_encoding.
      service_extract_face_encoding fenv selfie_bytes = Some selfie_encoding \<longrightarrow>
        (\<forall>s. filter (\<lambda>m. mi_similarity m = s)
               (find_matching_faces fenv selfie_bytes event_images) =
             filter (\<lambda>m. mi_similarity m = s)
               (matching_loop fenv selfie_encoding event_images [])) \<and>
        subseq (map mi_file_url (matching_loop fenv selfie_encoding event_images []))
          (List.map_filter ei_url event_images))"
proof (intro conjI allI impI)
  assume "DEEPFACE_AVAILABLE env \<and> decode_upload env target_image = Inr target_array \<and>
          json_loads env image_urls = Inr (JArray urls)"
  then show "\<exists>r. batch_verify env start_time end_time target_image image_urls model detector
                   metrics threshold = Inr r \<and>
                bv_results r =
                  map (batch_item env target_array model detector metrics threshold) urls"
    by (simp add: batch_verify_ok)
next
  show "sorted_wrt (\<ge>) (map mi_similarity (find_matching_faces fenv selfie_bytes event_images))"
    by (simp add: find_matching_faces_def sorted_py_sort_reverse split: option.splits)
next
  fix selfie_encoding s
  assume "service_extract_face_encoding fenv selfie_bytes = Some selfie_encoding"
  then show "filter (\<lambda>m. mi_similarity m = s)
               (find_matching_faces fenv selfie_bytes event_images) =
             filter (\<lambda>m. mi_similarity m = s)
               (matching_loop fenv selfie_encoding event_images [])"
    by (simp add: find_matching_faces_def stable_py_sort_reverse)
next
  fix selfie_encoding
  show "subseq (map mi_file_url (matching_loop fenv selfie_encoding event_images []))
          (List.map_filter ei_url event_images)"
    by (rule matching_loop_subseq)
qed

theorem results_order_witness:
  "(\<exists>r. batch_verify example_env 0 1 0 example_urls ''VGG-Face'' ''opencv'' ''cosine'' (3 / 5)
           = Inr r \<and>
        bv_results r =
          map (batch_item example_env 100 ''VGG-Face'' ''opencv'' ''cosine'' (3 / 5))
            [JStr ''urlA'', JStr ''urlB'', JStr ''urlC'']) \<and>
   sorted_wrt (\<ge>) (map mi_similarity (find_matching_faces example_fenv [10] example_events)) \<and>
   filter (\<lambda>m. mi_similarity m = 4 / 5) (find_matching_faces example_fenv [10] example_events) =
     filter (\<lambda>m. mi_similarity m = 4 / 5) (matching_loop example_fenv [10] example_events []) \<and>
   subseq (map mi_file_url (matching_loop example_fenv [10] example_events []))
     (List.map_filter ei_url example_events)"
proof -
  have batch: "DEEPFACE_AVAILABLE example_env \<and> decode_upload example_env 0 = Inr 100 \<and>
               json_loads example_env example_urls =
                 Inr (JArray [JStr ''urlA'', JStr ''urlB'', JStr ''urlC''])"
    by simp
  have selfie: "service_extract_face_encoding example_fenv [10] = Some [10]"
    by simp
  from results_order [of example_env 0 100 example_urls
                         "[JStr ''urlA'', JStr ''urlB'', JStr ''urlC'']" 0 1
                         "''VGG-Face''" "''opencv''" "''cosine''" "3 / 5"
                         example_fenv "[10]" example_events]
       batch selfie
  show ?thesis by blast
qed

subsection \<open>A failing candidate\<close>

lemma bv_success_batch_respond [simp]:
  "bv_success (batch_respond urls results t0 t1 model detector metrics threshold)"
  by (simp add: batch_respond_def Let_def)

text \<open>
  C3. When DeepFace is available, the target image decodes and the candidate list
  parses to an array, a candidate whose fetch or comparison raises gets the entry with
  \<^verbatim>\<open>verified\<close> false, \<^verbatim>\<open>similarity\<close> 0 and the exception's text as \<^verbatim>\<open>error\<close>;
  every other candidate, also a later one, has the entry it would have had anyway, and
  the response is returned with \<^verbatim>\<open>success\<close> true.
\<close>

theorem batch_verify_failure_isolated:
  assumes "DEEPFACE_AVAILABLE env"
      and "decode_upload env target_image = Inr target_array"
      and "json_loads env image_urls = Inr (JArray urls)"
      and "i < length urls"
      and "(\<exists>e. fetch_url env (urls ! i) = Inl e \<and>
                reason = http_str env 400 (''Failed to load image from URL: '' @ e)) \<or>
           (\<exists>compare_array.
                fetch_url env (urls ! i) = Inr compare_array \<and>
                DeepFace_verify env target_array compare_array model detector metrics False =
                  Inl reason)"
  shows "\<exists>r. batch_verify env start_time end_time target_image image_urls model detector
                metrics threshold = Inr r \<and>
             bv_success r \<and>
             length (bv_results r) = length urls \<and>
             bv_results r ! i =
               \<lparr>be_url = urls ! i, be_verified = False, be_distance = 1, be_similarity = 0,
                be_match = False, be_error = Some reason\<rparr> \<and>
             (\<forall>j < length urls.
                bv_results r ! j =
                  batch_item env target_array model detector metrics threshold (urls ! j))"
proof -
  have "batch_item env target_array model detector metrics threshold (urls ! i) =
          \<lparr>be_url = urls ! i, be_verified = False, be_distance = 1, be_similarity = 0,
           be_match = False, be_error = Some reason\<rparr>"
    using assms(5)
    by (auto simp: batch_item_def load_image_from_url_def batch_error_entry_def)
  with assms(4) show ?thesis
    by (simp add: batch_verify_ok [OF assms(1-3)])
qed

theorem batch_verify_failure_isolated_witness:
  "\<exists>r. batch_verify example_env 0 1 0 example_urls ''VGG-Face'' ''opencv'' ''cosine'' (3 / 5)
          = Inr r \<and>
       bv_success r \<and>
       length (bv_results r) = 3 \<and>
       bv_results r ! 1 =
         \<lparr>be_url = JStr ''urlB'', be_verified = False, be_distance = 1, be_similarity = 0,
          be_match = False,
          be_error =
            Some (starlette_str 400
                    ''Failed to load image from URL: 404 Client Error: Not Found'')\<rparr> \<and>
       bv_results r ! 2 =
         \<lparr>be_url = JStr ''urlC'', be_verified = False, be_distance = 7 / 10,
          be_similarity = 3 / 10, be_match = False, be_error = None\<rparr>"
proof -
  let ?urls = "[JStr ''urlA'', JStr ''urlB'', JStr ''urlC'']"
  have failed:
    "(\<exists>e. fetch_url example_env (?urls ! 1) = Inl e \<and>
          starlette_str 400 ''Failed to load image from URL: 404 Client Error: Not Found'' =
            http_str example_env 400 (''Failed to load image from URL: '' @ e)) \<or>
     (\<exists>compare_array.
          fetch_url example_env (?urls ! 1) = Inr compare_array \<and>
          DeepFace_verify example_env 100 compare_array ''VGG-Face'' ''opencv'' ''cosine'' False =
            Inl (starlette_str 400
                   ''Failed to load image from URL: 404 Client Error: Not Found''))"
    by simp
  from batch_verify_failure_isolated
         [of example_env 0 100 example_urls ?urls 1 _ "''VGG-Face''" "''opencv''" "''cosine''"
             0 1 "3 / 5", OF _ _ _ _ failed]
  obtain r where r:
    "batch_verify example_env 0 1 0 example_urls ''VGG-Face'' ''opencv'' ''cosine'' (3 / 5)
       = Inr r"
    "bv_success r" "length (bv_results r) = length ?urls"
    "bv_results r ! 1 =
       \<lparr>be_url = ?urls ! 1, be_verified = False, be_distance = 1, be_similarity = 0,
        be_match = False,
        be_error =
          Some (starlette_str 400
                  ''Failed to load image from URL: 404 Client Error: Not Found'')\<rparr>"
    "\<forall>j < length ?urls.
       bv_results r ! j =
         batch_item example_env 100 ''VGG-Face'' ''opencv'' ''cosine'' (3 / 5) (?urls ! j)"
    by auto
  from r(5) have "bv_results r ! 2 =
      batch_item example_env 100 ''VGG-Face'' ''opencv'' ''cosine'' (3 / 5) (JStr ''urlC'')"
    by simp
  with r show ?thesis by (simp add: example_items)
qed

subsection \<open>The two verdicts\<close>

text \<open>
  C4. For a candidate that was fetched and compared, the entry's \<^verbatim>\<open>similarity\<close> is
  one minus the distance DeepFace reports (1.0 when it reports none),
  \<^verbatim>\<open>verified\<close> is exactly \<^verbatim>\<open>similarity > threshold\<close> for the caller's threshold,
  whatever DeepFace's own verdict, which the entry carries separately as \<^verbatim>\<open>match\<close>;
  at a similarity equal to the threshold \<^verbatim>\<open>verified\<close> is false.
\<close>

theorem batch_verify_verified_by_threshold:
  assumes "DEEPFACE_AVAILABLE env"
      and "decode_upload env target_image = Inr target_array"
      and "json_loads env image_urls = Inr (JArray urls)"
      and "i < length urls"
      and "fetch_url env (urls ! i) = Inr compare_array"
      and "DeepFace_verify env target_array compare_array model detector metrics False =
             Inr result"
  shows "\<exists>r. batch_verify env start_time end_time target_image image_urls model detector
                metrics threshold = Inr r \<and>
             be_similarity (bv_results r ! i) = 1 - dict_get (vr_distance result) 1 \<and>
             be_verified (bv_results r ! i) = (be_similarity (bv_results r ! i) > threshold) \<and>
             be_match (bv_results r ! i) = dict_get (vr_verified result) False \<and>
             be_error (bv_results r ! i) = None \<and>
             (be_similarity (bv_results r ! i) = threshold \<longrightarrow>
                \<not> be_verified (bv_results r ! i))"
proof -
  have "batch_item env target_array model detector metrics threshold (urls ! i) =
          \<lparr>be_url = urls ! i,
           be_verified = (1 - dict_get (vr_distance result) 1 > threshold),
           be_distance = dict_get (vr_distance result) 1,
           be_similarity = 1 - dict_get (vr_distance result) 1,
           be_match = dict_get (vr_verified result) False,
           be_error = None\<rparr>"
    using assms(5,6) by (simp add: batch_item_def load_image_from_url_def Let_def)
  with assms(4) show ?thesis
    by (simp add: batch_verify_ok [OF assms(1-3)])
qed

theorem batch_verify_verified_by_threshold_witness:
  "\<exists>r. batch_verify example_env 0 1 0 example_urls ''VGG-Face'' ''opencv'' ''cosine'' (4 / 5)
          = Inr r \<and>
       be_similarity (bv_results r ! 0) = 4 / 5 \<and>
       \<not> be_verified (bv_results r ! 0) \<and>
       be_match (bv_results r ! 0)"
proof -
  let ?urls = "[JStr ''urlA'', JStr ''urlB'', JStr ''urlC'']"
  let ?result = "\<lparr>vr_verified = Some True, vr_distance = Some (1 / 5),
                   vr_threshold = Some (2 / 5), vr_facial_areas = None\<rparr>"
  have fetched: "fetch_url example_env (?urls ! 0) = Inr 11"
    by simp
  have compared:
    "DeepFace_verify example_env 100 11 ''VGG-Face'' ''opencv'' ''cosine'' False = Inr ?result"
    by simp
  from batch_verify_verified_by_threshold
         [of example_env 0 100 example_urls ?urls 0 11 "''VGG-Face''" "''opencv''"
             "''cosine''" ?result 0 1 "4 / 5", OF _ _ _ _ fetched compared]
  show ?thesis by (auto simp: dict_get_def)
qed

subsection \<open>The summary\<close>

lemma batch_item_error_not_verified:
  "be_error (batch_item env target_array model detector metrics threshold url) \<noteq> None \<Longrightarrow>
   \<not> be_verified (batch_item env target_array model detector metrics threshold url)"
  by (auto simp: batch_item_def batch_error_entry_def Let_def split: sum.splits)

lemma batch_respond_summary:
  "bv_summary (batch_respond urls results t0 t1 model detector metrics threshold) =
     \<lparr>bs_total_images = length urls,
      bs_matches = length (filter be_verified results),
      bs_match_rate =
        (if urls \<noteq> [] then real (length (filter be_verified results)) / real (length urls)
         else 0),
      bs_processing_time = t1 - t0,
      bs_avg_time_per_image = (if urls \<noteq> [] then (t1 - t0) / real (length urls) else 0)\<rparr>"
  by (simp add: batch_respond_def Let_def)

text \<open>
  C5. In every response of batch-verify, \<^verbatim>\<open>total_images\<close> counts all entries,
  \<^verbatim>\<open>matches\<close> counts the entries with \<^verbatim>\<open>verified\<close> true, which no entry with an
  error is, and \<^verbatim>\<open>processing_time\<close> is the difference of the two clock readings.
  With at least one candidate \<^verbatim>\<open>match_rate\<close> is \<^verbatim>\<open>matches / total_images\<close> and
  \<^verbatim>\<open>avg_time_per_image\<close> is \<^verbatim>\<open>processing_time / total_images\<close>; with none both
  are 0. \<^verbatim>\<open>match_rate\<close> lies between 0 and 1. An empty candidate list is answered
  with a response, not with an error.
\<close>

theorem batch_verify_summary:
  "(\<forall>r. batch_verify env start_time end_time target_image image_urls model detector metrics
          threshold = Inr r \<longrightarrow>
        bs_total_images (bv_summary r) = length (bv_results r) \<and>
        bs_matches (bv_summary r) = length (filter be_verified (bv_results r)) \<and>
        (\<forall>e \<in> set (bv_results r). be_error e \<noteq> None \<longrightarrow> \<not> be_verified e) \<and>
        bs_processing_time (bv_summary r) = end_time - start_time \<and>
        (bs_total_images (bv_summary r) > 0 \<longrightarrow>
           bs_match_rate (bv_summary r) =
             real (bs_matches (bv_summary r)) / real (bs_total_images (bv_summary r)) \<and>
           bs_avg_time_per_image (bv_summary r) =
             bs_processing_time (bv_summary r) / real (bs_total_images (bv_summary r))) \<and>
        (bs_total_images (bv_summary r) = 0 \<longrightarrow>
           bs_match_rate (bv_summary r) = 0 \<and> bs_avg_time_per_image (bv_summary r) = 0) \<and>
        0 \<le> bs_match_rate (bv_summary r) \<and> bs_match_rate (bv_summary r) \<le> 1) \<and>
   (DEEPFACE_AVAILABLE env \<and> (\<exists>a. decode_upload env target_image = Inr a) \<and>
    json_loads env image_urls = Inr (JArray []) \<longrightarrow>
      (\<exists>r. batch_verify env start_time end_time target_image image_urls model detector metrics
              threshold = Inr r \<and> bv_results r = []))"
proof (intro conjI allI impI)
  fix r
  assume "batch_verify env start_time end_time target_image image_urls model detector metrics
            threshold = Inr r"
  from batch_verify_Inr [OF this] obtain a urls where
    r: "r = batch_respond urls (map (batch_item env a model detector metrics threshold) urls)
              start_time end_time model detector metrics threshold"
    by blast
  let ?results = "map (batch_item env a model detector metrics threshold) urls"
  have le: "length (filter be_verified ?results) \<le> length urls"
    using length_filter_le [of be_verified ?results] by simp
  show "bs_total_images (bv_summary r) = length (bv_results r)"
    by (simp add: r batch_respond_summary)
  show "bs_matches (bv_summary r) = length (filter be_verified (bv_results r))"
    by (simp add: r batch_respond_summary)
  show "\<forall>e \<in> set (bv_results r). be_error e \<noteq> None \<longrightarrow> \<not> be_verified e"
    using batch_item_error_not_verified by (fastforce simp: r)
  show "bs_processing_time (bv_summary r) = end_time - start_time"
    by (simp add: r batch_respond_summary)
  show "bs_match_rate (bv_summary r) =
          real (bs_matches (bv_summary r)) / real (bs_total_images (bv_summary r))"
    if "bs_total_images (bv_summary r) > 0"
    using that by (simp add: r batch_respond_summary)
  show "bs_avg_time_per_image (bv_summary r) =
          bs_processing_time (bv_summary r) / real (bs_total_images (bv_summary r))"
    if "bs_total_images (bv_summary r) > 0"
    using that by (simp add: r batch_respond_summary)
  show "bs_match_rate (bv_summary r) = 0" if "bs_total_images (bv_summary r) = 0"
    using that by (simp add: r batch_respond_summary)
  show "bs_avg_time_per_image (bv_summary r) = 0" if "bs_total_images (bv_summary r) = 0"
    using that by (simp add: r batch_respond_summary)
  show "0 \<le> bs_match_rate (bv_summary r)"
    by (simp add: r batch_respond_summary)
  show "bs_match_rate (bv_summary r) \<le> 1"
    using le by (simp add: r batch_respond_summary divide_le_eq_1)
next
  assume "DEEPFACE_AVAILABLE env \<and> (\<exists>a. decode_upload env target_image = Inr a) \<and>
          json_loads env image_urls = Inr (JArray [])"
  then show "\<exists>r. batch_verify env start_time end_time target_image image_urls model detector
                   metrics threshold = Inr r \<and> bv_results r = []"
    by (auto simp: batch_verify_ok)
qed

theorem batch_verify_summary_witness:
  "(\<exists>r. batch_verify example_env 0 1 0 example_urls ''VGG-Face'' ''opencv'' ''cosine'' (3 / 5)
           = Inr r \<and>
        bs_total_images (bv_summary r) = 3 \<and> bs_matches (bv_summary r) = 1 \<and>
        bs_match_rate (bv_summary r) = 1 / 3 \<and>
        bs_avg_time_per_image (bv_summary r) = 1 / 3) \<and>
   (\<exists>r. batch_verify example_env 0 1 0 ''[]'' ''VGG-Face'' ''opencv'' ''cosine'' (3 / 5) = Inr r \<and>
        bs_total_images (bv_summary r) = 0 \<and>
        bs_match_rate (bv_summary r) = 0 \<and> bs_avg_time_per_image (bv_summary r) = 0)"
proof -
  have empty: "DEEPFACE_AVAILABLE example_env \<and> (\<exists>a. decode_upload example_env 0 = Inr a) \<and>
               json_loads example_env ''[]'' = Inr (JArray [])"
    by simp
  note summary = batch_verify_summary
                   [of example_env 0 1 0 _ "''VGG-Face''" "''opencv''" "''cosine''" "3 / 5"]
  from summary [of "''[]''"] empty obtain r0 where
    r0: "batch_verify example_env 0 1 0 ''[]'' ''VGG-Face'' ''opencv'' ''cosine'' (3 / 5) = Inr r0"
        "bv_results r0 = []"
    by blast
  from summary [of "''[]''"] r0 have
    "bs_total_images (bv_summary r0) = 0 \<and> bs_match_rate (bv_summary r0) = 0 \<and>
     bs_avg_time_per_image (bv_summary r0) = 0"
    by simp
  moreover
  let ?r = "batch_respond [JStr ''urlA'', JStr ''urlB'', JStr ''urlC'']
              (map (batch_item example_env 100 ''VGG-Face'' ''opencv'' ''cosine'' (3 / 5))
                 [JStr ''urlA'', JStr ''urlB'', JStr ''urlC''])
              0 1 ''VGG-Face'' ''opencv'' ''cosine'' (3 / 5)"
  have results: "bv_results ?r =
      [\<lparr>be_url = JStr ''urlA'', be_verified = True, be_distance = 1 / 5,
        be_similarity = 4 / 5, be_match = True, be_error = None\<rparr>,
       batch_error_entry (JStr ''urlB'')
         (starlette_str 400 ''Failed to load image from URL: 404 Client Error: Not Found''),
       \<lparr>be_url = JStr ''urlC'', be_verified = False, be_distance = 7 / 10,
        be_similarity = 3 / 10, be_match = False, be_error = None\<rparr>]"
    by (simp add: example_items)
  from summary [of example_urls] example_batch have
    "bs_total_images (bv_summary ?r) = length (bv_results ?r) \<and>
     bs_matches (bv_summary ?r) = length (filter be_verified (bv_results ?r)) \<and>
     bs_processing_time (bv_summary ?r) = 1 - 0 \<and>
     (bs_total_images (bv_summary ?r) > 0 \<longrightarrow>
        bs_match_rate (bv_summary ?r) =
          real (bs_matches (bv_summary ?r)) / real (bs_total_images (bv_summary ?r)) \<and>
        bs_avg_time_per_image (bv_summary ?r) =
          bs_processing_time (bv_summary ?r) / real (bs_total_images (bv_summary ?r)))"
    by blast
  then have "bs_total_images (bv_summary ?r) = 3 \<and> bs_matches (bv_summary ?r) = 1 \<and>
             bs_match_rate (bv_summary ?r) = 1 / 3 \<and>
             bs_avg_time_per_image (bv_summary ?r) = 1 / 3"
    unfolding results by (simp add: batch_error_entry_def)
  ultimately show ?thesis using r0(1) example_batch by blast
qed

subsection \<open>Similarity and distance\<close>

lemma batch_item_similarity:
  "be_similarity (batch_item env target_array model detector metrics threshold url) =
     1 - be_distance (batch_item env target_array model detector metrics threshold url)"
  by (simp add: batch_item_def batch_error_entry_def Let_def split: sum.splits)

lemma verify_faces_similarity:
  assumes "verify_faces env start_time end_time img1 img2 img1_url img2_url model detector
             metrics enforce_detection = Inr v"
  shows "vf_similarity v = 1 - vf_distance v"
proof (cases "verify_try env start_time end_time img1 img2 img1_url img2_url model detector
                metrics enforce_detection")
  case (Inl e)
  with assms show ?thesis
    by (auto simp: verify_faces_def Let_def split: if_splits)
next
  case (Inr response)
  then have "vf_similarity response = 1 - vf_distance response"
    by (auto simp: verify_try_def split: sum.splits)
  with Inr assms show ?thesis
    by (auto simp: verify_faces_def split: if_splits)
qed

lemma example_verify_faces:
  "verify_faces example_env 0 1 (Some 0) None None (Some ''urlA'') ''VGG-Face'' ''opencv''
     ''cosine'' False =
   Inr \<lparr>vf_success = True, vf_verified = True, vf_distance = 1 / 5, vf_similarity = 4 / 5,
        vf_threshold = Some (2 / 5), vf_message = None, vf_model = ''VGG-Face'',
        vf_detector = ''opencv'', vf_metrics = ''cosine'', vf_processing_time = Some 1,
        vf_analysis = Some \<lparr>va_img1_face = [], va_img2_face = []\<rparr>\<rparr>"
  by (simp add: verify_faces_def verify_try_def load_image_input_def load_image_from_file_def
        load_image_from_url_def AVAILABLE_MODELS_def AVAILABLE_DETECTORS_def
        AVAILABLE_METRICS_def dict_get_def facial_area_def)

lemma example_compare_faces:
  "compare_faces example_fenv [10] [8] =
     Inr \<lparr>cf_success = True, cf_distance = 1 / 5, cf_similarity = 4 / 5, cf_match = True\<rparr>"
  by (simp add: compare_faces_def FACE_MATCH_THRESHOLD_def Let_def)

text \<open>
  C6. Every response that reports both fields has \<^verbatim>\<open>similarity = 1 - distance\<close>:
  both shapes of the /api/verify response, every entry of a batch-verify response, the
  error entries among them, and the compare-faces response; whatever the metric and
  whatever distance the library reports.
\<close>

theorem similarity_is_one_minus_distance:
  "(\<forall>v. verify_faces env start_time end_time img1 img2 img1_url img2_url model detector
          metrics enforce_detection = Inr v \<longrightarrow>
        vf_similarity v = 1 - vf_distance v) \<and>
   (\<forall>b. batch_verify env start_time end_time target_image image_urls model detector metrics
          threshold = Inr b \<longrightarrow>
        (\<forall>e \<in> set (bv_results b). be_similarity e = 1 - be_distance e)) \<and>
   (\<forall>c. compare_faces fenv encoding1 encoding2 = Inr c \<longrightarrow>
        cf_similarity c = 1 - cf_distance c)"
proof (intro conjI allI impI)
  fix v
  assume "verify_faces env start_time end_time img1 img2 img1_url img2_url model detector
            metrics enforce_detection = Inr v"
  then show "vf_similarity v = 1 - vf_distance v"
    by (rule verify_faces_similarity)
next
  fix b
  assume "batch_verify env start_time end_time target_image image_urls model detector metrics
            threshold = Inr b"
  from batch_verify_Inr [OF this] obtain a urls where
    "b = batch_respond urls (map (batch_item env a model detector metrics threshold) urls)
           start_time end_time model detector metrics threshold"
    by blast
  then show "\<forall>e \<in> set (bv_results b). be_similarity e = 1 - be_distance e"
    by (auto simp: batch_item_similarity)
next
  fix c
  assume "compare_faces fenv encoding1 encoding2 = Inr c"
  then show "cf_similarity c = 1 - cf_distance c"
    by (auto simp: compare_faces_def Let_def split: sum.splits)
qed

theorem similarity_is_one_minus_distance_witness:
  "(\<exists>v. verify_faces example_env 0 1 (Some 0) None None (Some ''urlA'') ''VGG-Face''
           ''opencv'' ''cosine'' False = Inr v \<and>
        vf_similarity v = 1 - vf_distance v) \<and>
   (\<exists>b. batch_verify example_env 0 1 0 example_urls ''VGG-Face'' ''opencv'' ''cosine'' (3 / 5)
           = Inr b \<and>
        length (bv_results b) = 3 \<and>
        (\<forall>e \<in> set (bv_results b). be_similarity e = 1 - be_distance e)) \<and>
   (\<exists>c. compare_faces example_fenv [10] [8] = Inr c \<and> cf_similarity c = 1 - cf_distance c)"
  using similarity_is_one_minus_distance
          [of example_env 0 1 "Some 0" None None "Some ''urlA''" "''VGG-Face''" "''opencv''"
              "''cosine''" False 0 example_urls "3 / 5" example_fenv "[10]" "[8]"]
        example_verify_faces example_batch example_compare_faces
  by simp

subsection \<open>extract-encoding without a face\<close>

text \<open>
  C10. When the uploaded image can be read and loaded and the library finds no face
  location in it (or no encoding for the locations), the service method returns
  \<^verbatim>\<open>None\<close>, the handler raises \<^verbatim>\<open>HTTPException(400, "No face detected in image")\<close>
  inside its own \<^verbatim>\<open>try\<close>, and its \<^verbatim>\<open>except Exception\<close> answers with status 500 and
  the text of that exception as detail.
\<close>

theorem extract_encoding_no_face_is_500:
  assumes "upload_read env image_file = Inr image_bytes"
      and "load_image_file env image_bytes = Inr img"
      and "face_locations env img = Inr [] \<or>
           (\<exists>locations. face_locations env img = Inr locations \<and>
                         face_encodings env img locations = Inr [])"
  shows "extract_face_encoding env image_file =
           Inl (HTTPException 500 (fm_http_str env 400 ''No face detected in image''))"
proof -
  have "service_extract_face_encoding env image_bytes = None"
    using assms(2,3) by (auto simp: service_extract_face_encoding_def)
  with assms(1) show ?thesis
    by (simp add: extract_face_encoding_def extract_face_encoding_try_def)
qed

theorem extract_encoding_no_face_is_500_witness:
  "extract_face_encoding example_fenv 2 =
     Inl (HTTPException 500 (starlette_str 400 ''No face detected in image''))"
proof -
  have no_face: "face_locations example_fenv 99 = Inr [] \<or>
           (\<exists>locations. face_locations example_fenv 99 = Inr locations \<and>
                         face_encodings example_fenv 99 locations = Inr [])"
    by simp
  from extract_encoding_no_face_is_500 [of example_fenv 2 "[99]" 99, OF _ _ no_face]
  show ?thesis by simp
qed

subsection \<open>No face detected\<close>

lemma starlette_str_400: "starlette_str 400 detail = ''400: '' @ detail"
  by (simp add: starlette_str_def decimal.simps digit_char_def)

lemma example_no_face [simp]: "face_not_detected no_face_message"
  by (simp add: face_not_detected_def no_face_message_def sublist_code)

lemma example_no_face_calls [simp]:
  "DeepFace_analyze example_env 50 detector enforce = Inl no_face_message"
  "DeepFace_verify example_env 100 50 ''VGG-Face'' detector metrics enforce = Inl no_face_message"
  "extract_faces example_env 50 ''opencv'' enforce = Inl no_face_message"
  by (simp_all add: example_env_def AVAILABLE_MODELS_def AVAILABLE_DETECTORS_def)

lemma available_simps [simp]:
  "''VGG-Face'' \<in> set AVAILABLE_MODELS"
  "''opencv'' \<in> set AVAILABLE_DETECTORS"
  "''cosine'' \<in> set AVAILABLE_METRICS"
  by (simp_all add: AVAILABLE_MODELS_def AVAILABLE_DETECTORS_def AVAILABLE_METRICS_def)

lemma load_image_input_file [simp]:
  "load_image_input env (Some file) url missing = load_image_from_file env file"
  by (simp add: load_image_input_def)

lemma example_uploads [simp]:
  "load_image_from_file example_env 0 = Inr 100"
  "load_image_from_file example_env 5 = Inr 50"
  by (simp_all add: load_image_from_file_def)

text \<open>
  C7. When the library call of the handler raises with the text "Face could not be
  detected", /api/analyze and /api/detect answer with a response of \<^verbatim>\<open>success\<close>
  true, \<^verbatim>\<open>face_count\<close> 0 and no faces, and /api/verify with \<^verbatim>\<open>success\<close> true,
  \<^verbatim>\<open>verified\<close> false, \<^verbatim>\<open>similarity\<close> 0, \<^verbatim>\<open>distance\<close> 1 and a message; none of
  them raises, for either value of \<^verbatim>\<open>enforce_detection\<close>.
\<close>

theorem no_face_is_success:
  "(DEEPFACE_AVAILABLE env \<and> detector \<in> set AVAILABLE_DETECTORS \<and>
    load_image_input env image_file image_url
      ''Either image file or image_url must be provided'' = Inr img \<and>
    DeepFace_analyze env img detector enforce_detection = Inl msg \<and>
    face_not_detected msg \<longrightarrow>
      (\<exists>r. analyze_faces env now image_file image_url detector enforce_detection = Inr r \<and>
           an_success r \<and> an_face_count r = 0 \<and> an_faces r = [])) \<and>
   (DEEPFACE_AVAILABLE env \<and>
    load_image_input env image_file image_url
      ''Either image file or image_url must be provided'' = Inr img \<and>
    extract_faces env img detector False = Inl msg \<and>
    face_not_detected msg \<longrightarrow>
      (\<exists>r. detect_faces env image_file image_url detector = Inr r \<and>
           dt_success r \<and> dt_face_count r = 0 \<and> dt_faces r = [])) \<and>
   (DEEPFACE_AVAILABLE env \<and> model \<in> set AVAILABLE_MODELS \<and>
    detector \<in> set AVAILABLE_DETECTORS \<and> metrics \<in> set AVAILABLE_METRICS \<and>
    load_image_input env img1 img1_url ''First image must be provided'' = Inr img1_array \<and>
    load_image_input env img2 img2_url ''Second image must be provided'' = Inr img2_array \<and>
    DeepFace_verify env img1_array img2_array model detector metrics enforce_detection =
      Inl msg \<and>
    face_not_detected msg \<longrightarrow>
      (\<exists>r. verify_faces env start_time end_time img1 img2 img1_url img2_url model detector
              metrics enforce_detection = Inr r \<and>
           vf_success r \<and> \<not> vf_verified r \<and> vf_similarity r = 0 \<and> vf_distance r = 1 \<and>
           vf_message r = Some ''Face could not be detected in one or both images''))"
  by (simp add: analyze_faces_def analyze_try_def detect_faces_def detect_try_def
        verify_faces_def verify_try_def Let_def)

theorem no_face_is_success_witness:
  "(\<exists>r. analyze_faces example_env 0 (Some 5) None ''opencv'' True = Inr r \<and>
        an_success r \<and> an_face_count r = 0 \<and> an_faces r = []) \<and>
   (\<exists>r. detect_faces example_env (Some 5) None ''opencv'' = Inr r \<and>
        dt_success r \<and> dt_face_count r = 0 \<and> dt_faces r = []) \<and>
   (\<exists>r. verify_faces example_env 0 1 (Some 0) (Some 5) None None ''VGG-Face'' ''opencv''
           ''cosine'' True = Inr r \<and>
        vf_success r \<and> \<not> vf_verified r \<and> vf_similarity r = 0 \<and> vf_distance r = 1 \<and>
        vf_message r = Some ''Face could not be detected in one or both images'')"
  using no_face_is_success
          [of example_env "''opencv''" "Some 5" None 50 True no_face_message 0]
        no_face_is_success
          [of example_env "''opencv''" "Some 5" None 50 False no_face_message 0]
        no_face_is_success
          [of example_env "''opencv''" None None 0 True no_face_message 0
              "''VGG-Face''" "''cosine''" "Some 0" None 100 "Some 5" None 50 0 1]
  by simp

subsection \<open>Validation of model, detector and metric\<close>

text \<open>
  /api/analyze checks the detector and /api/verify the model, the detector and the
  metric before anything else is done. /api/batch-verify and /api/detect have no such
  check: they never answer with status 400.
\<close>

lemma batch_verify_status:
  "batch_verify env start_time end_time target_image image_urls model detector metrics
     threshold = Inl e \<Longrightarrow>
   e = HTTPException 503 ''DeepFace not available'' \<or> (\<exists>detail. e = HTTPException 500 detail)"
  by (auto simp: batch_verify_def split: if_splits sum.splits)

lemma detect_faces_status:
  "detect_faces env image_file image_url detector = Inl e \<Longrightarrow>
   e = HTTPException 503 ''DeepFace not available'' \<or> (\<exists>detail. e = HTTPException 500 detail)"
  by (auto simp: detect_faces_def Let_def split: if_splits sum.splits)

lemma analyze_faces_invalid_detector:
  "DEEPFACE_AVAILABLE env \<Longrightarrow> detector \<notin> set AVAILABLE_DETECTORS \<Longrightarrow>
   analyze_faces env now image_file image_url detector enforce_detection =
     Inl (HTTPException 400
            (''Invalid detector. Available: '' @ py_repr_list AVAILABLE_DETECTORS))"
  by (simp add: analyze_faces_def)

lemma verify_faces_invalid_model:
  "DEEPFACE_AVAILABLE env \<Longrightarrow> model \<notin> set AVAILABLE_MODELS \<Longrightarrow>
   verify_faces env start_time end_time img1 img2 img1_url img2_url model detector metrics
     enforce_detection =
     Inl (HTTPException 400 (''Invalid model. Available: '' @ py_repr_list AVAILABLE_MODELS))"
  by (simp add: verify_faces_def)

lemma example_unknown_model_items:
  "batch_item example_env 100 ''NotAModel'' ''opencv'' ''cosine'' (2 / 5) (JStr ''urlA'') =
     batch_error_entry (JStr ''urlA'') ''Invalid model_name passed - NotAModel''"
  "batch_item example_env 100 ''NotAModel'' ''opencv'' ''cosine'' (2 / 5) (JStr ''urlB'') =
     batch_error_entry (JStr ''urlB'')
       ''400: Failed to load image from URL: 404 Client Error: Not Found''"
  "batch_item example_env 100 ''NotAModel'' ''opencv'' ''cosine'' (2 / 5) (JStr ''urlC'') =
     batch_error_entry (JStr ''urlC'') ''Invalid model_name passed - NotAModel''"
  by (simp_all add: batch_item_def load_image_from_url_def starlette_str_400)
     (simp_all add: example_env_def AVAILABLE_MODELS_def)

text \<open>
  C8 at a failing input. batch-verify with the model \<^verbatim>\<open>NotAModel\<close> decodes the target,
  fetches every URL and calls the library, whose exception becomes the error of the
  entries; the request succeeds. /api/detect with the detector \<^verbatim>\<open>nonsense\<close> loads
  the image, calls the library and answers 500.
\<close>

theorem unknown_parameter_not_rejected:
  "batch_verify example_env 0 1 0 example_urls ''NotAModel'' ''opencv'' ''cosine'' (2 / 5) =
     Inr \<lparr>bv_success = True,
          bv_results =
            [batch_error_entry (JStr ''urlA'') ''Invalid model_name passed - NotAModel'',
             batch_error_entry (JStr ''urlB'')
               ''400: Failed to load image from URL: 404 Client Error: Not Found'',
             batch_error_entry (JStr ''urlC'') ''Invalid model_name passed - NotAModel''],
          bv_summary =
            \<lparr>bs_total_images = 3, bs_matches = 0, bs_match_rate = 0, bs_processing_time = 1,
             bs_avg_time_per_image = 1 / 3\<rparr>,
          bv_model = ''NotAModel'', bv_detector = ''opencv'', bv_metrics = ''cosine'',
          bv_threshold = 2 / 5\<rparr> \<and>
   detect_faces example_env (Some 0) None ''nonsense'' =
     Inl (HTTPException 500 ''Detection failed: invalid detector_backend passed - nonsense'')"
proof
  have "batch_verify example_env 0 1 0 example_urls ''NotAModel'' ''opencv'' ''cosine'' (2 / 5) =
     Inr (batch_respond [JStr ''urlA'', JStr ''urlB'', JStr ''urlC'']
            (map (batch_item example_env 100 ''NotAModel'' ''opencv'' ''cosine'' (2 / 5))
               [JStr ''urlA'', JStr ''urlB'', JStr ''urlC''])
            0 1 ''NotAModel'' ''opencv'' ''cosine'' (2 / 5))"
    by (rule batch_verify_ok) simp_all
  then show "batch_verify example_env 0 1 0 example_urls ''NotAModel'' ''opencv'' ''cosine''
               (2 / 5) =
     Inr \<lparr>bv_success = True,
          bv_results =
            [batch_error_entry (JStr ''urlA'') ''Invalid model_name passed - NotAModel'',
             batch_error_entry (JStr ''urlB'')
               ''400: Failed to load image from URL: 404 Client Error: Not Found'',
             batch_error_entry (JStr ''urlC'') ''Invalid model_name passed - NotAModel''],
          bv_summary =
            \<lparr>bs_total_images = 3, bs_matches = 0, bs_match_rate = 0, bs_processing_time = 1,
             bs_avg_time_per_image = 1 / 3\<rparr>,
          bv_model = ''NotAModel'', bv_detector = ''opencv'', bv_metrics = ''cosine'',
          bv_threshold = 2 / 5\<rparr>"
    by (simp add: example_unknown_model_items)
       (simp add: batch_respond_def batch_error_entry_def)
next
  have "extract_faces example_env 100 ''nonsense'' False =
          Inl ''invalid detector_backend passed - nonsense''"
    by (simp add: example_env_def AVAILABLE_DETECTORS_def)
  then show "detect_faces example_env (Some 0) None ''nonsense'' =
     Inl (HTTPException 500 ''Detection failed: invalid detector_backend passed - nonsense'')"
    by (simp add: detect_faces_def detect_try_def face_not_detected_def sublist_code)
qed

subsection \<open>A missing image\<close>

text \<open>
  The \<^verbatim>\<open>HTTPException(400)\<close> for a missing image is raised inside the handler's
  \<^verbatim>\<open>try\<close>, whose \<^verbatim>\<open>except Exception\<close> catches it and raises status 500 instead,
  unless its text contains the no-face message.
\<close>

lemma missing_image_analyze:
  assumes "DEEPFACE_AVAILABLE env" and "detector \<in> set AVAILABLE_DETECTORS"
      and "\<not> face_not_detected
               (http_str env 400 ''Either image file or image_url must be provided'')"
  shows "analyze_faces env now None None detector enforce_detection =
           Inl (HTTPException 500
                  (''Analysis failed: '' @
                   http_str env 400 ''Either image file or image_url must be provided''))"
  using assms by (simp add: analyze_faces_def analyze_try_def load_image_input_def)

lemma missing_image_verify:
  assumes "DEEPFACE_AVAILABLE env" and "model \<in> set AVAILABLE_MODELS"
      and "detector \<in> set AVAILABLE_DETECTORS" and "metrics \<in> set AVAILABLE_METRICS"
      and "\<not> face_not_detected (http_str env 400 ''First image must be provided'')"
  shows "verify_faces env start_time end_time None img2 None img2_url model detector metrics
           enforce_detection =
           Inl (HTTPException 500
                  (''Verification failed: '' @
                   http_str env 400 ''First image must be provided''))"
  using assms by (simp add: verify_faces_def verify_try_def load_image_input_def)

text \<open>
  C9 at a failing input. /api/analyze and /api/verify without any image answer with
  status 500, the 400 being only in the detail.
\<close>

theorem missing_image_answers_500:
  "analyze_faces example_env 0 None None ''opencv'' True =
     Inl (HTTPException 500
            ''Analysis failed: 400: Either image file or image_url must be provided'') \<and>
   verify_faces example_env 0 1 None None None None ''VGG-Face'' ''opencv'' ''cosine'' False =
     Inl (HTTPException 500 ''Verification failed: 400: First image must be provided'')"
proof
  have "\<not> face_not_detected
            (http_str example_env 400 ''Either image file or image_url must be provided'')"
    by (simp add: starlette_str_400 face_not_detected_def sublist_code)
  from missing_image_analyze [OF _ _ this, of "''opencv''" 0 True]
  show "analyze_faces example_env 0 None None ''opencv'' True =
     Inl (HTTPException 500
            ''Analysis failed: 400: Either image file or image_url must be provided'')"
    by (simp add: starlette_str_400)
next
  have "\<not> face_not_detected (http_str example_env 400 ''First image must be provided'')"
    by (simp add: starlette_str_400 face_not_detected_def sublist_code)
  from missing_image_verify [OF _ _ _ _ this, of "''VGG-Face''" "''opencv''" "''cosine''"
                               0 1 None None False]
  show "verify_faces example_env 0 1 None None None None ''VGG-Face'' ''opencv'' ''cosine''
          False =
     Inl (HTTPException 500 ''Verification failed: 400: First image must be provided'')"
    by (simp add: starlette_str_400)
qed

end
